theory Spec2Isabelle
  imports Main
begin

section \<open>JavaScript values used by the views\<close>

text \<open>
  A JavaScript string is modelled as a \<^typ>\<open>string\<close>, the list of its
  characters; the string functions below are defined on lists of any element type, and
  use nothing of the characters but their equality. An optional field
  (\<^verbatim>\<open>email?: string\<close>, or a nullable column of a loaded row) is a
  \<^typ>\<open>string option\<close>: \<open>None\<close> stands for \<^verbatim>\<open>undefined\<close> and \<^verbatim>\<open>null\<close>, which the
  code never tells apart (it only uses \<^verbatim>\<open>||\<close>, \<^verbatim>\<open>?.\<close> and truthiness on them).
\<close>

text \<open>Truthiness of an optional string: absent and the empty string are falsy.\<close>

definition truthy :: "string option \<Rightarrow> bool" where
  "truthy v = (case v of None \<Rightarrow> False | Some s \<Rightarrow> s \<noteq> [])"

text \<open>\<^verbatim>\<open>v || ""\<close> on an optional string.\<close>

definition or_empty :: "string option \<Rightarrow> string" where
  "or_empty v = (case v of None \<Rightarrow> [] | Some s \<Rightarrow> if truthy (Some s) then s else [])"

text \<open>\<^verbatim>\<open>s || undefined\<close> on a string.\<close>

definition or_undefined :: "string \<Rightarrow> string option" where
  "or_undefined s = (if truthy (Some s) then Some s else None)"

text \<open>
  \<^verbatim>\<open>s.startsWith(t)\<close> and \<^verbatim>\<open>s.includes(t)\<close>: \<open>includes_str\<close> looks for a position of
  \<open>s\<close> at which \<open>t\<close> starts, from left to right.
\<close>

fun startsWith :: "'a list \<Rightarrow> 'a list \<Rightarrow> bool" where
  "startsWith s [] = True"
| "startsWith [] (y # ys) = False"
| "startsWith (x # xs) (y # ys) = (x = y \<and> startsWith xs ys)"

fun includes_str :: "'a list \<Rightarrow> 'a list \<Rightarrow> bool" where
  "includes_str [] t = startsWith [] t"
| "includes_str (x # xs) t = (startsWith (x # xs) t \<or> includes_str xs t)"

text \<open>
  \<^verbatim>\<open>String.prototype.toLowerCase\<close> is a built-in of the language and a parameter of
  the model. The function below is its restriction to strings of Basic Latin and
  Latin-1 Supplement characters (A-Z and the letters U+00C0..U+00DE move up by 32,
  which sets bit 5 of the code; everything else stays), used where a concrete
  instance is evaluated.
\<close>

definition lower_char :: "char \<Rightarrow> char" where
  "lower_char c =
     (let n = (of_char c :: nat)
      in if (65 \<le> n \<and> n \<le> 90) \<or> (192 \<le> n \<and> n \<le> 222 \<and> n \<noteq> 215)
         then (case c of Char b0 b1 b2 b3 b4 b5 b6 b7 \<Rightarrow> Char b0 b1 b2 b3 b4 True b6 b7)
         else c)"

definition toLowerCase_latin1 :: "string \<Rightarrow> string" where
  "toLowerCase_latin1 s = map lower_char s"

section \<open>Contacts\<close>

text \<open>
  The \<^verbatim>\<open>Contact\<close> objects passed between the views. The three interfaces of the
  source differ in the optional fields they declare; the record has all of them.
\<close>

record contact =
  contact_id :: "string option"
  name :: string
  email :: "string option"
  phone :: "string option"
  address :: "string option"
  city :: "string option"
  contact_notes :: "string option"

section \<open>Search filter of the contact list view\<close>

text \<open>
  \<^verbatim>\<open>contacts.filter((contact) =>
     contact.name.toLowerCase().includes(searchTerm.toLowerCase()) ||
     contact.email?.toLowerCase().includes(searchTerm.toLowerCase()) ||
     contact.phone?.includes(searchTerm))\<close>
  An optional chain on an absent field yields \<^verbatim>\<open>undefined\<close>, which is falsy.
\<close>

definition contact_matches :: "(string \<Rightarrow> string) \<Rightarrow> string \<Rightarrow> contact \<Rightarrow> bool" where
  "contact_matches toLowerCase searchTerm c =
     (includes_str (toLowerCase (name c)) (toLowerCase searchTerm)
      \<or> (case email c of None \<Rightarrow> False
          | Some e \<Rightarrow> includes_str (toLowerCase e) (toLowerCase searchTerm))
      \<or> (case phone c of None \<Rightarrow> False | Some p \<Rightarrow> includes_str p searchTerm))"

definition filteredContacts :: "(string \<Rightarrow> string) \<Rightarrow> contact list \<Rightarrow> string \<Rightarrow> contact list" where
  "filteredContacts toLowerCase contacts searchTerm =
     filter (contact_matches toLowerCase searchTerm) contacts"

text \<open>
  The filter as the specification words it: a term is a substring of a text when the
  text is some prefix, then the term, then some suffix; it is a case-insensitive
  substring when this holds of the two lower-cased strings.
\<close>

definition substring_of :: "string \<Rightarrow> string \<Rightarrow> bool" where
  "substring_of t s = (\<exists>ps ss. s = ps @ t @ ss)"

definition ci_substring_of :: "(string \<Rightarrow> string) \<Rightarrow> string \<Rightarrow> string \<Rightarrow> bool" where
  "ci_substring_of toLowerCase t s = substring_of (toLowerCase t) (toLowerCase s)"

definition search_spec :: "(string \<Rightarrow> string) \<Rightarrow> string \<Rightarrow> contact \<Rightarrow> bool" where
  "search_spec toLowerCase t c =
     (ci_substring_of toLowerCase t (name c)
      \<or> (\<exists>e. email c = Some e \<and> ci_substring_of toLowerCase t e)
      \<or> (\<exists>p. phone c = Some p \<and> substring_of t p))"

section \<open>Contact form dialog\<close>

text \<open>The five \<^verbatim>\<open>useState\<close> text fields of \<^verbatim>\<open>ContactDialog\<close>.\<close>

record form =
  name_field :: string
  email_field :: string
  phone_field :: string
  address_field :: string
  notes_field :: string

text \<open>
  The seeding effect, run when \<^verbatim>\<open>editingContact\<close> or \<^verbatim>\<open>open\<close> changes: the fields
  are taken from the record being edited, \<^verbatim>\<open>|| ""\<close> on each optional one, or cleared.
\<close>

definition seedFields :: "contact option \<Rightarrow> form" where
  "seedFields editingContact =
     (case editingContact of
        Some c \<Rightarrow>
          \<lparr>name_field = name c,
           email_field = or_empty (email c),
           phone_field = or_empty (phone c),
           address_field = or_empty (address c),
           notes_field = or_empty (contact_notes c)\<rparr>
      | None \<Rightarrow>
          \<lparr>name_field = [], email_field = [], phone_field = [],
           address_field = [], notes_field = []\<rparr>)"

text \<open>
  The object literal that \<^verbatim>\<open>handleSubmit\<close> passes to \<^verbatim>\<open>onSave\<close>: the id is spread
  in when \<^verbatim>\<open>editingContact?.id\<close> is truthy, the name is the field as typed, each
  optional field is \<^verbatim>\<open>field || undefined\<close>. The literal has no \<^verbatim>\<open>city\<close> key.
\<close>

definition submittedContact :: "form \<Rightarrow> contact option \<Rightarrow> contact" where
  "submittedContact f editingContact =
     \<lparr>contact_id =
        (case editingContact of
           None \<Rightarrow> None
         | Some c \<Rightarrow> if truthy (contact_id c) then contact_id c else None),
      name = name_field f,
      email = or_undefined (email_field f),
      phone = or_undefined (phone_field f),
      address = or_undefined (address_field f),
      city = None,
      contact_notes = or_undefined (notes_field f)\<rparr>"

text \<open>
  \<^verbatim>\<open>handleSubmit\<close>: \<^verbatim>\<open>onSave(record); onOpenChange(false)\<close>. The two callbacks are
  props of the dialog; they act on the state of the parent view.
\<close>

definition handleSubmit ::
  "(contact \<Rightarrow> 's \<Rightarrow> 's) \<Rightarrow> (bool \<Rightarrow> 's \<Rightarrow> 's) \<Rightarrow> form \<Rightarrow> contact option \<Rightarrow> 's \<Rightarrow> 's" where
  "handleSubmit onSave onOpenChange f editingContact st =
     onOpenChange False (onSave (submittedContact f editingContact) st)"

section \<open>Store requests and responses\<close>

text \<open>
  A call of the store client, as the query builder assembles it:
  \<^item> \<open>Select table columns (column, value) order single\<close> is
    \<^verbatim>\<open>from(table).select(columns).eq(column, value)\<close>, followed by
    \<^verbatim>\<open>.order(c, { ascending: a })\<close> when \<open>order = Some (c, a)\<close> and by \<^verbatim>\<open>.single()\<close>
    when \<open>single\<close> holds;
  \<^item> \<open>Update table object (column, value)\<close> is \<^verbatim>\<open>from(table).update(object).eq(column, value)\<close>;
  \<^item> \<open>Insert table object\<close> is \<^verbatim>\<open>from(table).insert(object)\<close>;
  \<^item> \<open>Delete table (column, value)\<close> is \<^verbatim>\<open>from(table).delete().eq(column, value)\<close>.
  An object literal is the list of its keys with their values, \<open>None\<close> for a key whose
  value is \<^verbatim>\<open>undefined\<close>.
\<close>

type_synonym js_object = "(string \<times> string option) list"

datatype request =
    Select string string "string \<times> string" "(string \<times> bool) option" bool
  | Update string js_object "string \<times> string"
  | Insert string js_object
  | Delete string "string \<times> string"

text \<open>The \<^verbatim>\<open>{ data, error }\<close> object a store call resolves to.\<close>

record 'a response =
  data :: "'a option"
  error :: "string option"

datatype toast = Toast_error string | Toast_success string

section \<open>Contact list view\<close>

text \<open>The user of a session: \<^verbatim>\<open>session.user.id\<close> and \<^verbatim>\<open>session.user.email\<close>.\<close>

record user =
  user_id :: string
  user_email :: "string option"

text \<open>
  The state of \<^verbatim>\<open>Index\<close>: its \<^verbatim>\<open>useState\<close> cells (\<open>session\<close> is \<open>None\<close> when there
  is no session, \<open>profile\<close> holds the \<^verbatim>\<open>full_name\<close> of the loaded row), and the
  traces of its effects: the store calls issued, the notifications shown, the errors
  written to the console.
\<close>

record index_state =
  session :: "user option"
  contacts :: "contact list"
  searchTerm :: string
  dialogOpen :: bool
  editingContact :: "contact option"
  loading :: bool
  profile :: "string option option"
  requests :: "request list"
  toasts :: "toast list"
  console :: "string list"

definition issue :: "request \<Rightarrow> index_state \<Rightarrow> index_state" where
  "issue r st = st\<lparr>requests := requests st @ [r]\<rparr>"

definition toast_error :: "string \<Rightarrow> index_state \<Rightarrow> index_state" where
  "toast_error m st = st\<lparr>toasts := toasts st @ [Toast_error m]\<rparr>"

definition toast_success :: "string \<Rightarrow> index_state \<Rightarrow> index_state" where
  "toast_success m st = st\<lparr>toasts := toasts st @ [Toast_success m]\<rparr>"

definition console_error :: "string \<Rightarrow> index_state \<Rightarrow> index_state" where
  "console_error e st = st\<lparr>console := console st @ [e]\<rparr>"

text \<open>
  \<^verbatim>\<open>loadProfile\<close>, with the response of the store as an argument. Only \<^verbatim>\<open>data\<close> is
  read from the response.
\<close>

definition loadProfile :: "index_state \<Rightarrow> string option response \<Rightarrow> index_state" where
  "loadProfile st resp =
     (case session st of
        None \<Rightarrow> st
      | Some u \<Rightarrow>
          let st1 = issue (Select ''profiles'' ''full_name'' (''user_id'', user_id u) None True) st
          in (case data resp of
                Some row \<Rightarrow> st1\<lparr>profile := Some row\<rparr>
              | None \<Rightarrow> st1))"

text \<open>The header text: \<^verbatim>\<open>profile?.full_name || session?.user?.email\<close>.\<close>

definition full_name :: "index_state \<Rightarrow> string option" where
  "full_name st = (case profile st of None \<Rightarrow> None | Some row \<Rightarrow> row)"

definition session_email :: "index_state \<Rightarrow> string option" where
  "session_email st = (case session st of None \<Rightarrow> None | Some u \<Rightarrow> user_email u)"

definition header_text :: "index_state \<Rightarrow> string option" where
  "header_text st = (if truthy (full_name st) then full_name st else session_email st)"

text \<open>\<^verbatim>\<open>loadContacts\<close>, with the response of the store as an argument.\<close>

definition loadContacts :: "index_state \<Rightarrow> contact list response \<Rightarrow> index_state" where
  "loadContacts st resp =
     (case session st of
        None \<Rightarrow> st
      | Some u \<Rightarrow>
          let st1 = issue (Select ''contacts'' ''*'' (''user_id'', user_id u)
                             (Some (''created_at'', False)) False)
                      (st\<lparr>loading := True\<rparr>);
              st2 = (case error resp of
                       Some e \<Rightarrow> console_error e (toast_error ''Error al cargar contactos'' st1)
                     | None \<Rightarrow>
                         st1\<lparr>contacts := (case data resp of Some rs \<Rightarrow> rs | None \<Rightarrow> [])\<rparr>)
          in st2\<lparr>loading := False\<rparr>)"

text \<open>
  \<^verbatim>\<open>handleSaveContact\<close>. \<open>resp\<close> is the response to the write, \<open>reload\<close> the response
  to the load that follows a successful write.
\<close>

definition update_object :: "contact \<Rightarrow> js_object" where
  "update_object c =
     [(''name'', Some (name c)), (''email'', email c), (''phone'', phone c),
      (''notes'', contact_notes c)]"

definition insert_object :: "user \<Rightarrow> contact \<Rightarrow> js_object" where
  "insert_object u c =
     [(''user_id'', Some (user_id u)), (''name'', Some (name c)), (''email'', email c),
      (''phone'', phone c), (''notes'', contact_notes c)]"

definition handleSaveContact ::
  "index_state \<Rightarrow> contact \<Rightarrow> unit response \<Rightarrow> contact list response \<Rightarrow> index_state" where
  "handleSaveContact st c resp reload =
     (case session st of
        None \<Rightarrow> st
      | Some u \<Rightarrow>
          let st2 =
            (case (if truthy (contact_id c) then contact_id c else None) of
               Some i \<Rightarrow>
                 let st1 = issue (Update ''contacts'' (update_object c) (''id'', i)) st
                 in (case error resp of
                       Some e \<Rightarrow>
                         console_error e (toast_error ''Error al actualizar el contacto'' st1)
                     | None \<Rightarrow> loadContacts (toast_success ''Contacto actualizado'' st1) reload)
             | None \<Rightarrow>
                 let st1 = issue (Insert ''contacts'' (insert_object u c)) st
                 in (case error resp of
                       Some e \<Rightarrow> console_error e (toast_error ''Error al crear el contacto'' st1)
                     | None \<Rightarrow> loadContacts (toast_success ''Contacto creado'' st1) reload))
          in st2\<lparr>editingContact := None\<rparr>)"

text \<open>\<^verbatim>\<open>handleDeleteContact\<close>: there is no test of the session before the call.\<close>

definition handleDeleteContact ::
  "index_state \<Rightarrow> string \<Rightarrow> unit response \<Rightarrow> contact list response \<Rightarrow> index_state" where
  "handleDeleteContact st i resp reload =
     (let st1 = issue (Delete ''contacts'' (''id'', i)) st
      in (case error resp of
            Some e \<Rightarrow> console_error e (toast_error ''Error al eliminar el contacto'' st1)
          | None \<Rightarrow> loadContacts (toast_success ''Contacto eliminado'' st1) reload))"

definition handleEditContact :: "index_state \<Rightarrow> contact \<Rightarrow> index_state" where
  "handleEditContact st c = st\<lparr>editingContact := Some c, dialogOpen := True\<rparr>"

definition setDialogOpen :: "bool \<Rightarrow> index_state \<Rightarrow> index_state" where
  "setDialogOpen b st = st\<lparr>dialogOpen := b\<rparr>"

text \<open>
  The dialog as \<^verbatim>\<open>Index\<close> renders it: \<^verbatim>\<open>onSave={handleSaveContact}\<close>,
  \<^verbatim>\<open>onOpenChange={setDialogOpen}\<close>, \<^verbatim>\<open>editingContact={editingContact}\<close>.
\<close>

definition submitDialog ::
  "index_state \<Rightarrow> form \<Rightarrow> unit response \<Rightarrow> contact list response \<Rightarrow> index_state" where
  "submitDialog st f resp reload =
     handleSubmit (\<lambda>c s. handleSaveContact s c resp reload) setDialogOpen f
       (editingContact st) st"

section \<open>The contacts table and its migration\<close>

text \<open>
  A row gives each column its value, \<open>None\<close> for \<^verbatim>\<open>NULL\<close>. A table has its rows and,
  for each column, the literal of its \<^verbatim>\<open>DEFAULT\<close> clause (\<open>None\<close> when it has none).
\<close>

type_synonym row = "string \<Rightarrow> string option"

record table =
  column_default :: "string \<Rightarrow> string option"
  rows :: "row list"

text \<open>
  \<^verbatim>\<open>ALTER TABLE t ADD COLUMN c TEXT DEFAULT d\<close>: the column gets the default, and the
  rows that exist get it as their value.
\<close>

definition add_column :: "string \<Rightarrow> string option \<Rightarrow> table \<Rightarrow> table" where
  "add_column c d t =
     \<lparr>column_default = (column_default t)(c := d),
      rows = map (\<lambda>r. r(c := d)) (rows t)\<rparr>"

text \<open>\<^verbatim>\<open>UPDATE t SET c = v WHERE c IS NULL\<close>.\<close>

definition update_where_null :: "string \<Rightarrow> string \<Rightarrow> table \<Rightarrow> table" where
  "update_where_null c v t =
     t\<lparr>rows := map (\<lambda>r. if r c = None then r(c := Some v) else r) (rows t)\<rparr>"

text \<open>The two statements of the migration that adds \<^verbatim>\<open>city\<close>.\<close>

definition migration :: "table \<Rightarrow> table" where
  "migration t = update_where_null ''city'' ''Burgos'' (add_column ''city'' (Some ''Burgos'') t)"

text \<open>
  The body of an insert request is the JSON text of the object: a key whose value is
  \<^verbatim>\<open>undefined\<close> is left out of it.
\<close>

definition json_body :: "js_object \<Rightarrow> string \<Rightarrow> string option" where
  "json_body obj k = (case map_of obj k of Some (Some v) \<Rightarrow> Some v | _ \<Rightarrow> None)"

text \<open>
  The row an insert stores: a column named in the body takes the value given, any
  other column its default. \<open>generated\<close> stands for what the store computes for the
  columns that have no literal default (\<^verbatim>\<open>id\<close>, \<^verbatim>\<open>created_at\<close>).
\<close>

definition new_row :: "table \<Rightarrow> row \<Rightarrow> js_object \<Rightarrow> row" where
  "new_row t generated obj col =
     (case json_body obj col of
        Some v \<Rightarrow> Some v
      | None \<Rightarrow> (case column_default t col of Some d \<Rightarrow> Some d | None \<Rightarrow> generated col))"

definition store_insert :: "row \<Rightarrow> js_object \<Rightarrow> table \<Rightarrow> table" where
  "store_insert generated obj t = t\<lparr>rows := rows t @ [new_row t generated obj]\<rparr>"

section \<open>Concrete values\<close>

text \<open>
  The two contacts of the specification's search example, as updates of any two
  contacts: only name, email and phone are given there. The sixth character of the
  first name is the letter o with acute accent, U+00F3.
\<close>

definition ana_name :: string where
  "ana_name = ''Ana L'' @ [CHR 0xF3] @ ''pez''"

definition example_ana :: "contact \<Rightarrow> contact" where
  "example_ana c = c\<lparr>name := ana_name, email := Some ''a@x.com'', phone := Some ''600111222''\<rparr>"

definition example_beto :: "contact \<Rightarrow> contact" where
  "example_beto c = c\<lparr>name := ''Beto'', email := Some ''b@x.com'', phone := Some ''600333444''\<rparr>"

text \<open>
  The state of the view when it mounts, a user, the state once the session of that
  user is known, and responses of the store: one without error and without data, one
  with an error.
\<close>

definition initial_state :: index_state where
  "initial_state =
     \<lparr>session = None, contacts = [], searchTerm = [], dialogOpen = False,
      editingContact = None, loading = True, profile = None, requests = [], toasts = [],
      console = []\<rparr>"

definition alice :: user where
  "alice = \<lparr>user_id = ''u1'', user_email = Some ''alice@x.com''\<rparr>"

definition signed_in :: index_state where
  "signed_in = initial_state\<lparr>session := Some alice\<rparr>"

definition succeeded :: "'a response" where
  "succeeded = \<lparr>data = None, error = None\<rparr>"

definition failed :: "'a response" where
  "failed = \<lparr>data = None, error = Some ''network error''\<rparr>"

definition returned :: "'a \<Rightarrow> 'a response" where
  "returned d = \<lparr>data = Some d, error = None\<rparr>"

definition empty_table :: table where
  "empty_table = \<lparr>column_default = (\<lambda>c. None), rows = []\<rparr>"

definition blank_contact :: contact where
  "blank_contact =
     \<lparr>contact_id = None, name = [], email = None, phone = None, address = None,
      city = None, contact_notes = None\<rparr>"

section \<open>Properties of the search filter\<close>

lemma startsWith_iff: "startsWith s t \<longleftrightarrow> (\<exists>ss. s = t @ ss)"
  by (induction s t rule: startsWith.induct) auto

lemma includes_iff: "includes_str s t \<longleftrightarrow> (\<exists>ps ss. s = ps @ t @ ss)"
proof (induction s)
  case Nil
  show ?case by (cases t) auto
next
  case (Cons x xs)
  show ?case
  proof
    assume "includes_str (x # xs) t"
    then consider "startsWith (x # xs) t" | "includes_str xs t" by auto
    then show "\<exists>ps ss. x # xs = ps @ t @ ss"
    proof cases
      case 1
      then obtain ss where "x # xs = t @ ss" using startsWith_iff by blast
      then have "x # xs = [] @ t @ ss" by simp
      then show ?thesis by blast
    next
      case 2
      then obtain ps ss where "xs = ps @ t @ ss" using Cons.IH by blast
      then have "x # xs = (x # ps) @ t @ ss" by simp
      then show ?thesis by blast
    qed
  next
    assume "\<exists>ps ss. x # xs = ps @ t @ ss"
    then obtain ps ss where eq: "x # xs = ps @ t @ ss" by blast
    show "includes_str (x # xs) t"
    proof (cases ps)
      case Nil
      with eq have "startsWith (x # xs) t" using startsWith_iff by fastforce
      then show ?thesis by simp
    next
      case (Cons p ps')
      with eq have "xs = ps' @ t @ ss" by simp
      then have "includes_str xs t" using Cons.IH by blast
      then show ?thesis by simp
    qed
  qed
qed

lemma includes_substring_of: "includes_str s t = substring_of t s"
  by (simp add: includes_iff substring_of_def)

lemma contact_matches_search_spec:
  "contact_matches toLowerCase t c = search_spec toLowerCase t c"
  by (cases "email c"; cases "phone c")
     (simp_all add: contact_matches_def search_spec_def ci_substring_of_def
        includes_substring_of)

lemma includes_str_Nil: "includes_str s []"
  by (induction s) simp_all

lemma filter_spec: "filteredContacts toLowerCase cs t = filter (search_spec toLowerCase t) cs"
  unfolding filteredContacts_def
  by (rule filter_cong) (simp_all add: contact_matches_search_spec)

lemma example_results:
  assumes "toLowerCase ana_name = ''ana l'' @ [CHR 0xF3] @ ''pez''"
    and "toLowerCase ''Beto'' = ''beto''"
    and "toLowerCase ''a@x.com'' = ''a@x.com''"
    and "toLowerCase ''b@x.com'' = ''b@x.com''"
    and "toLowerCase ''ana'' = ''ana''"
    and "toLowerCase ''600'' = ''600''"
    and "toLowerCase ''999'' = ''999''"
  shows "filteredContacts toLowerCase [example_ana a, example_beto b] ''ana'' = [example_ana a]"
    and "filteredContacts toLowerCase [example_ana a, example_beto b] ''600''
           = [example_ana a, example_beto b]"
    and "filteredContacts toLowerCase [example_ana a, example_beto b] ''999'' = []"
  using assms
  by (simp_all add: filteredContacts_def contact_matches_def example_ana_def example_beto_def)

text \<open>
  Claim C4. For every search term and every contact list, the filter keeps exactly the
  contacts where the term is a case-insensitive substring of the name, or of the
  email, or a case-sensitive substring of the phone, in the order of the list. For the
  two contacts of the example, whatever their other fields are, the term "ana" keeps
  only the first, "600" keeps both and "999" keeps none; the example needs the values
  of \<^verbatim>\<open>toLowerCase\<close> at its seven strings, which are stated.
\<close>

theorem search_filter_spec:
  "filteredContacts toLowerCase cs t = filter (search_spec toLowerCase t) cs
   \<and> (toLowerCase ana_name = ''ana l'' @ [CHR 0xF3] @ ''pez''
        \<and> toLowerCase ''Beto'' = ''beto''
        \<and> toLowerCase ''a@x.com'' = ''a@x.com''
        \<and> toLowerCase ''b@x.com'' = ''b@x.com''
        \<and> toLowerCase ''ana'' = ''ana''
        \<and> toLowerCase ''600'' = ''600''
        \<and> toLowerCase ''999'' = ''999''
      \<longrightarrow> filteredContacts toLowerCase [example_ana a, example_beto b] ''ana'' = [example_ana a]
        \<and> filteredContacts toLowerCase [example_ana a, example_beto b] ''600''
             = [example_ana a, example_beto b]
        \<and> filteredContacts toLowerCase [example_ana a, example_beto b] ''999'' = [])"
  using filter_spec example_results by blast

theorem search_filter_spec_witness:
  "filteredContacts toLowerCase_latin1 [example_ana blank_contact, example_beto blank_contact] ''ana''
     = [example_ana blank_contact]
   \<and> filteredContacts toLowerCase_latin1 [example_ana blank_contact, example_beto blank_contact] ''600''
     = [example_ana blank_contact, example_beto blank_contact]
   \<and> filteredContacts toLowerCase_latin1 [example_ana blank_contact, example_beto blank_contact] ''999''
     = []"
proof -
  have h: "toLowerCase_latin1 ana_name = ''ana l'' @ [CHR 0xF3] @ ''pez''
        \<and> toLowerCase_latin1 ''Beto'' = ''beto''
        \<and> toLowerCase_latin1 ''a@x.com'' = ''a@x.com''
        \<and> toLowerCase_latin1 ''b@x.com'' = ''b@x.com''
        \<and> toLowerCase_latin1 ''ana'' = ''ana''
        \<and> toLowerCase_latin1 ''600'' = ''600''
        \<and> toLowerCase_latin1 ''999'' = ''999''"
    by (simp add: toLowerCase_latin1_def lower_char_def ana_name_def)
  show ?thesis
    using search_filter_spec [of toLowerCase_latin1 "[]" "[]" blank_contact blank_contact] h
    by blast
qed

text \<open>
  Claim C10. Filtering with the empty search term returns the whole list, unchanged
  and in the same order. The lower-cased empty string is the empty string.
\<close>

theorem empty_term_identity:
  "toLowerCase [] = [] \<Longrightarrow> filteredContacts toLowerCase cs [] = cs"
  by (simp add: filteredContacts_def contact_matches_def includes_str_Nil)

theorem empty_term_identity_witness:
  "toLowerCase_latin1 [] = []
   \<and> filteredContacts toLowerCase_latin1 [example_beto blank_contact, blank_contact] []
       = [example_beto blank_contact, blank_contact]"
proof -
  have h: "toLowerCase_latin1 [] = []" by (simp add: toLowerCase_latin1_def)
  show ?thesis
    using h empty_term_identity [of toLowerCase_latin1 "[example_beto blank_contact, blank_contact]"]
    by simp
qed

section \<open>Properties of the contact form dialog\<close>

lemmas effects = issue_def toast_error_def toast_success_def console_error_def

lemma loadContacts_dialogOpen: "dialogOpen (loadContacts st reload) = dialogOpen st"
  by (simp add: loadContacts_def effects Let_def split: option.splits)

lemma handleSaveContact_dialogOpen:
  "dialogOpen (handleSaveContact st c resp reload) = dialogOpen st"
  by (simp add: handleSaveContact_def loadContacts_dialogOpen effects Let_def
      split: option.splits)

lemma or_undefined_alt: "or_undefined s = (if s = [] then None else Some s)"
  by (simp add: or_undefined_def truthy_def)

text \<open>
  Claim C5. On every submission of the form, the record passed to the save callback
  has an id exactly when a record with a (non-empty) id is being edited, and then it is
  that id; its name is the name field as typed; each of email, phone, address and notes
  is absent when its field is the empty string and is the field otherwise. The dialog
  passes this record to the save callback and then asks to be closed: in the view, the
  dialog is closed after the submission whatever the store answers to the save and to
  the reload, also when the save completes after the dialog was closed.
\<close>

theorem dialog_submit:
  "(contact_id (submittedContact f ec) \<noteq> None) = (\<exists>c. ec = Some c \<and> truthy (contact_id c))
   \<and> contact_id (submittedContact f None) = None
   \<and> contact_id (submittedContact f (Some c)) = (if truthy (contact_id c) then contact_id c else None)
   \<and> name (submittedContact f ec) = name_field f
   \<and> email (submittedContact f ec) = (if email_field f = [] then None else Some (email_field f))
   \<and> phone (submittedContact f ec) = (if phone_field f = [] then None else Some (phone_field f))
   \<and> address (submittedContact f ec) = (if address_field f = [] then None else Some (address_field f))
   \<and> contact_notes (submittedContact f ec) = (if notes_field f = [] then None else Some (notes_field f))
   \<and> handleSubmit onSave onOpenChange f ec s = onOpenChange False (onSave (submittedContact f ec) s)
   \<and> dialogOpen (submitDialog st f resp reload) = False
   \<and> dialogOpen (handleSaveContact (setDialogOpen False st) (submittedContact f ec) resp reload) = False"
  by (cases ec)
     (auto simp add: submittedContact_def or_undefined_alt handleSubmit_def submitDialog_def
        setDialogOpen_def handleSaveContact_dialogOpen truthy_def split: option.splits)

text \<open>
  Claim C6. For every record whose address is absent, opening the dialog to edit it
  fills the address field with the empty string, and submitting the seeded form
  unchanged passes on a record whose address is absent.
\<close>

theorem seed_submit_address:
  "address c = None \<Longrightarrow>
     address_field (seedFields (Some c)) = []
     \<and> address (submittedContact (seedFields (Some c)) (Some c)) = None"
  by (simp add: seedFields_def submittedContact_def or_empty_def or_undefined_def truthy_def)

theorem seed_submit_address_witness:
  "address blank_contact = None
   \<and> address_field (seedFields (Some blank_contact)) = []
   \<and> address (submittedContact (seedFields (Some blank_contact)) (Some blank_contact)) = None"
proof -
  have h: "address blank_contact = None" by (simp add: blank_contact_def)
  show ?thesis using h seed_submit_address [of blank_contact] by simp
qed

section \<open>Properties of the contact list view\<close>

text \<open>
  Claim C7. For every load of the contact list with a user in the session, the view
  issues one request: all columns of the contacts whose \<^verbatim>\<open>user_id\<close> is the user's id,
  ordered by \<^verbatim>\<open>created_at\<close> descending. When the response carries an error, the
  notification "Error al cargar contactos" is shown and the list is the one displayed
  before; otherwise the list becomes the returned rows (no rows when the data is
  absent) and no notification is shown.
\<close>

theorem loadContacts_spec:
  "session st = Some u \<Longrightarrow>
     requests (loadContacts st resp)
       = requests st @ [Select ''contacts'' ''*'' (''user_id'', user_id u)
                          (Some (''created_at'', False)) False]
     \<and> (case error resp of
          Some e \<Rightarrow>
            contacts (loadContacts st resp) = contacts st
            \<and> toasts (loadContacts st resp) = toasts st @ [Toast_error ''Error al cargar contactos'']
        | None \<Rightarrow>
            contacts (loadContacts st resp) = (case data resp of Some rs \<Rightarrow> rs | None \<Rightarrow> [])
            \<and> toasts (loadContacts st resp) = toasts st)"
  by (simp add: loadContacts_def effects Let_def split: option.splits)

theorem loadContacts_spec_witness:
  "session (signed_in\<lparr>contacts := [blank_contact]\<rparr>) = Some alice
   \<and> requests (loadContacts (signed_in\<lparr>contacts := [blank_contact]\<rparr>) failed)
       = [Select ''contacts'' ''*'' (''user_id'', ''u1'') (Some (''created_at'', False)) False]
   \<and> contacts (loadContacts (signed_in\<lparr>contacts := [blank_contact]\<rparr>) failed) = [blank_contact]
   \<and> toasts (loadContacts (signed_in\<lparr>contacts := [blank_contact]\<rparr>) failed)
       = [Toast_error ''Error al cargar contactos'']"
proof -
  have h: "session (signed_in\<lparr>contacts := [blank_contact]\<rparr>) = Some alice"
    by (simp add: signed_in_def)
  show ?thesis
    using h loadContacts_spec [OF h, of failed]
    by (simp add: failed_def signed_in_def initial_state_def alice_def)
qed

text \<open>
  Claim C9. For every contact id, the delete handler issues the delete of the row with
  that id as its first store call, in every state of the view. Without a session it
  issues exactly that call, whereas the save handler and the load return without a
  call and leave the state as it is.
\<close>

theorem delete_unguarded:
  "(\<exists>rest. requests (handleDeleteContact st i resp reload)
             = requests st @ Delete ''contacts'' (''id'', i) # rest)
   \<and> (session st = None \<longrightarrow>
        requests (handleDeleteContact st i resp reload)
          = requests st @ [Delete ''contacts'' (''id'', i)]
        \<and> handleSaveContact st c resp reload = st
        \<and> loadContacts st reload = st)"
  by (simp add: handleDeleteContact_def handleSaveContact_def loadContacts_def effects Let_def
      split: option.splits)

theorem delete_unguarded_witness:
  "session initial_state = None
   \<and> requests (handleDeleteContact initial_state ''c1'' succeeded succeeded)
       = [Delete ''contacts'' (''id'', ''c1'')]
   \<and> handleSaveContact initial_state blank_contact succeeded succeeded = initial_state
   \<and> loadContacts initial_state succeeded = initial_state"
proof -
  have h: "session initial_state = None" by (simp add: initial_state_def)
  show ?thesis
    using h delete_unguarded [of initial_state "''c1''" succeeded succeeded blank_contact]
    by (simp add: initial_state_def)
qed

text \<open>
  Claim C1. A save of a record with an id should update name, email, phone, address and
  notes of the row. Evaluated on the record with id "c1", name "Ana" and address
  "Calle Mayor 1", with a session and a store that answers without error: the object of
  the update has the keys name, email, phone and notes, and no address.
\<close>

theorem update_request_without_address:
  "requests (handleSaveContact signed_in
       (blank_contact\<lparr>contact_id := Some ''c1'', name := ''Ana'', address := Some ''Calle Mayor 1''\<rparr>)
       succeeded succeeded)
     = [Update ''contacts''
          [(''name'', Some ''Ana''), (''email'', None), (''phone'', None), (''notes'', None)]
          (''id'', ''c1''),
        Select ''contacts'' ''*'' (''user_id'', ''u1'') (Some (''created_at'', False)) False]"
  by (simp add: handleSaveContact_def loadContacts_def update_object_def effects Let_def
      signed_in_def initial_state_def alice_def blank_contact_def succeeded_def truthy_def)

text \<open>
  Claim C2. A save of a record without an id should insert user_id, name, email, phone,
  address and notes. Evaluated on the record with name "Ana" and address
  "Calle Mayor 1", with a session and a store that answers without error: the object of
  the insert has the keys user_id, name, email, phone and notes, and no address, so
  the address of the stored row is not the one submitted.
\<close>

theorem insert_request_without_address:
  "requests (handleSaveContact signed_in
       (blank_contact\<lparr>name := ''Ana'', address := Some ''Calle Mayor 1''\<rparr>) succeeded succeeded)
     = [Insert ''contacts''
          [(''user_id'', Some ''u1''), (''name'', Some ''Ana''), (''email'', None),
           (''phone'', None), (''notes'', None)],
        Select ''contacts'' ''*'' (''user_id'', ''u1'') (Some (''created_at'', False)) False]
   \<and> new_row (migration empty_table) (\<lambda>c. None)
        (insert_object alice (blank_contact\<lparr>name := ''Ana'', address := Some ''Calle Mayor 1''\<rparr>))
        ''address'' = None"
  by (simp add: handleSaveContact_def loadContacts_def insert_object_def effects Let_def
      signed_in_def initial_state_def alice_def blank_contact_def succeeded_def truthy_def
      new_row_def json_body_def migration_def add_column_def update_where_null_def
      empty_table_def)

section \<open>The city of a new contact\<close>

lemma migration_city_default: "column_default (migration t) ''city'' = Some ''Burgos''"
  by (simp add: migration_def update_where_null_def add_column_def)

lemma insert_object_no_city: "map_of (insert_object u c) ''city'' = None"
  by (simp add: insert_object_def)

text \<open>
  Claim C3, as stated: the city of a row stored by the insert path after the migration
  is absent. It is not: for the new contact "Ana", inserted into the migrated table,
  the city of the stored row is not \<^verbatim>\<open>NULL\<close>.
\<close>

theorem insert_city_counterexample:
  "requests (handleSaveContact signed_in (blank_contact\<lparr>name := ''Ana''\<rparr>) succeeded succeeded)
     = [Insert ''contacts'' (insert_object alice (blank_contact\<lparr>name := ''Ana''\<rparr>)),
        Select ''contacts'' ''*'' (''user_id'', ''u1'') (Some (''created_at'', False)) False]
   \<and> new_row (migration empty_table) (\<lambda>c. None)
        (insert_object alice (blank_contact\<lparr>name := ''Ana''\<rparr>)) ''city'' \<noteq> None"
  by (simp add: handleSaveContact_def loadContacts_def insert_object_def effects Let_def
      signed_in_def initial_state_def alice_def blank_contact_def succeeded_def truthy_def
      new_row_def json_body_def migration_def add_column_def update_where_null_def
      empty_table_def)

text \<open>
  Claim C3, amended. For every save of a record without an id, with a user in the
  session, the view issues an insert whose object has no city; on the migrated table,
  whatever the table was before, the row stored for that object has the city "Burgos",
  the default that the migration gave the column.
\<close>

theorem insert_city_default:
  "session st = Some u \<Longrightarrow> \<not> truthy (contact_id c) \<Longrightarrow>
     (\<exists>rest. requests (handleSaveContact st c resp reload)
               = requests st @ Insert ''contacts'' (insert_object u c) # rest)
     \<and> map_of (insert_object u c) ''city'' = None
     \<and> new_row (migration t) generated (insert_object u c) ''city'' = Some ''Burgos''
     \<and> last (rows (store_insert generated (insert_object u c) (migration t))) ''city''
         = Some ''Burgos''"
  by (simp add: handleSaveContact_def loadContacts_def effects Let_def store_insert_def
      new_row_def json_body_def insert_object_no_city migration_city_default
      split: option.splits)

theorem insert_city_default_witness:
  "session signed_in = Some alice
   \<and> \<not> truthy (contact_id blank_contact)
   \<and> new_row (migration empty_table) (\<lambda>c. None) (insert_object alice blank_contact) ''city''
       = Some ''Burgos''"
proof -
  have h1: "session signed_in = Some alice" by (simp add: signed_in_def)
  have h2: "\<not> truthy (contact_id blank_contact)" by (simp add: blank_contact_def truthy_def)
  show ?thesis
    using h1 h2 insert_city_default [OF h1 h2, of succeeded succeeded empty_table "\<lambda>c. None"]
    by simp
qed

section \<open>The profile and the header\<close>

text \<open>
  Claim C8, as stated: after every profile lookup that fails, the header shows the
  email of the user. It does not when a name was loaded before: with the profile
  "Alice A." in the state, a lookup that fails leaves the header on that name.
\<close>

theorem failed_lookup_keeps_name_counterexample:
  "data (failed :: string option response) = None
   \<and> session_email (signed_in\<lparr>profile := Some (Some ''Alice A.'')\<rparr>) = Some ''alice@x.com''
   \<and> header_text (loadProfile (signed_in\<lparr>profile := Some (Some ''Alice A.'')\<rparr>) failed)
       = Some ''Alice A.''
   \<and> header_text (loadProfile (signed_in\<lparr>profile := Some (Some ''Alice A.'')\<rparr>) failed)
       \<noteq> session_email (signed_in\<lparr>profile := Some (Some ''Alice A.'')\<rparr>)"
  by (simp add: header_text_def full_name_def session_email_def loadProfile_def effects
      Let_def signed_in_def initial_state_def alice_def failed_def truthy_def)

text \<open>
  Claim C8, amended. No profile lookup shows a notification. A lookup that returns no
  row, by failure or by absence, leaves the profile state as it was, and the header
  then shows the email of the session's user whenever the profile state holds no
  display name, as it does before the first successful lookup. The profile state
  changes only when a row is returned.
\<close>

theorem loadProfile_fallback:
  "toasts (loadProfile st resp) = toasts st
   \<and> (data resp = None \<longrightarrow>
        profile (loadProfile st resp) = profile st
        \<and> (\<not> truthy (full_name st) \<longrightarrow> header_text (loadProfile st resp) = session_email st))
   \<and> (profile (loadProfile st resp) \<noteq> profile st \<longrightarrow> data resp \<noteq> None)"
  by (auto simp add: header_text_def full_name_def session_email_def loadProfile_def effects
      Let_def split: option.splits)

theorem loadProfile_fallback_witness:
  "data (failed :: string option response) = None
   \<and> \<not> truthy (full_name signed_in)
   \<and> toasts (loadProfile signed_in failed) = []
   \<and> profile (loadProfile signed_in failed) = None
   \<and> header_text (loadProfile signed_in failed) = Some ''alice@x.com''"
proof -
  have h1: "data (failed :: string option response) = None" by (simp add: failed_def)
  have h2: "\<not> truthy (full_name signed_in)"
    by (simp add: full_name_def signed_in_def initial_state_def truthy_def)
  show ?thesis
    using h1 h2 loadProfile_fallback [of signed_in failed]
    by (simp add: signed_in_def initial_state_def session_email_def alice_def)
qed

end
